theory Spec2Isabelle
  imports Complex_Main
begin

section \<open>Attendance backend: the submission pipeline of main.py\<close>

text \<open>
  The handler \<open>submit_attendance\<close> of \<open>src/main.py\<close> is embedded as a pure function of
  the request payload and of a \<open>runtime\<close>: the environment variables, the clock, the
  HTTP client and the document store the handler reads and calls.

  Python's \<open>float\<close> values are idealised as \<open>real\<close>: comparisons and arithmetic are
  exact, and the values \<open>nan\<close> and \<open>inf\<close> are outside the model. Exceptions are values of
  the type \<open>exn\<close>; a function that may raise returns \<open>exn + 'a\<close>, with \<open>Inl\<close> the raised
  exception. The calls to the two sinks are recorded in a list of \<open>effect\<close>s that the
  handler returns beside its result.
\<close>

subsection \<open>Python values\<close>

datatype exn = ValueError | HTTPException nat string

text \<open>The outcome of a call into a library: it raises an exception \<open>e\<close>, of which the
  handler only ever reads \<open>str(e)\<close>, or it returns.\<close>

datatype 'a attempt = Raised string | Returned 'a

text \<open>A decoded JSON document, as \<open>resp.json()\<close> returns it and as \<open>json=\<close> sends it.
  The items of a dict are an association list.\<close>

datatype json =
    JNull
  | JBool bool
  | JNum real
  | JStr string
  | JArr "json list"
  | JObj "(string \<times> json) list"

text \<open>Truth value of a Python object, as \<open>or\<close> tests it.\<close>

fun truthy :: "json \<Rightarrow> bool" where
  "truthy JNull = False"
| "truthy (JBool b) = b"
| "truthy (JNum x) = (x \<noteq> 0)"
| "truthy (JStr s) = (s \<noteq> [])"
| "truthy (JArr xs) = (xs \<noteq> [])"
| "truthy (JObj kvs) = (kvs \<noteq> [])"

definition py_or :: "json \<Rightarrow> json \<Rightarrow> json" where
  "py_or a b = (if truthy a then a else b)"

text \<open>\<open>d.get(k)\<close> on a dict: the value, or \<open>None\<close>.\<close>

definition dict_get :: "(string \<times> json) list \<Rightarrow> string \<Rightarrow> json" where
  "dict_get kvs k = (case map_of kvs k of None \<Rightarrow> JNull | Some v \<Rightarrow> v)"

definition opt_str :: "string option \<Rightarrow> json" where
  "opt_str s = (case s of None \<Rightarrow> JNull | Some t \<Rightarrow> JStr t)"

definition opt_bool :: "bool option \<Rightarrow> json" where
  "opt_bool b = (case b of None \<Rightarrow> JNull | Some t \<Rightarrow> JBool t)"

text \<open>\<open>str(n)\<close> of an integer, as the f-string of the forwarder error formats the status
  code.\<close>

fun digits :: "nat \<Rightarrow> string" where
  "digits n =
     (if n < 10 then [char_of (48 + n)]
      else digits (n div 10) @ [char_of (48 + n mod 10)])"

definition str_int :: "int \<Rightarrow> string" where
  "str_int i = (if i < 0 then CHR ''-'' # digits (nat (- i)) else digits (nat i))"

subsection \<open>The math module\<close>

definition radians :: "real \<Rightarrow> real" where
  "radians x = x * (pi / 180)"

text \<open>\<open>math.sqrt\<close> raises \<open>ValueError\<close> (math domain error) on a negative argument.\<close>

definition py_sqrt :: "real \<Rightarrow> exn + real" where
  "py_sqrt x = (if x < 0 then Inl ValueError else Inr (sqrt x))"

text \<open>\<open>math.atan2(y, x)\<close>: the angle of the point \<open>(x, y)\<close>, in \<open>(-pi, pi]\<close>.\<close>

definition atan2 :: "real \<Rightarrow> real \<Rightarrow> real" where
  "atan2 y x =
     (if 0 < x then arctan (y / x)
      else if x < 0 then (if 0 \<le> y then arctan (y / x) + pi else arctan (y / x) - pi)
      else if 0 < y then pi / 2
      else if y < 0 then - (pi / 2)
      else 0)"

subsection \<open>Data model\<close>

text \<open>The request body, \<open>class AttendanceIn(BaseModel)\<close>.\<close>

record AttendanceIn =
  name :: string
  email :: string
  latitude :: real
  longitude :: real
  accuracy_m :: real
  photo_base64 :: "string option"

text \<open>Modelled from the spec: \<open>schemas.AttendanceRecord\<close> is imported by main.py and its
  declaration is not part of the sources; it is taken as a plain record of the ten
  fields the handler passes to its constructor, whose construction does not fail.\<close>

record AttendanceRecord =
  name :: string
  email :: string
  date :: string
  time :: string
  latitude :: real
  longitude :: real
  accuracy_m :: real
  photo_url :: "string option"
  geofence_ok :: "bool option"
  raw_photo_base64 :: "string option"

text \<open>What the handler reads of the \<open>requests\<close> response: \<open>resp.status_code\<close>,
  \<open>resp.text\<close> and \<open>resp.json()\<close>, which raises (\<open>None\<close>) on a body that is not JSON.\<close>

record Response =
  status_code :: int
  text_str :: string
  json_body :: "json option"

text \<open>The \<open>data\<close> dict of the success response and the response itself.\<close>

record response_data =
  inserted_id :: "string option"
  date :: string
  time :: string
  latitude :: real
  longitude :: real
  accuracy_m :: real
  geofence_ok :: "bool option"
  photo_url :: json
  apps_script_forwarded :: bool
  apps_script_error :: "string option"

record response =
  success :: bool
  message :: string
  data :: response_data
  dashboard_url :: "string option"

text \<open>The calls the handler makes to its two sinks: \<open>requests.post(url, json, timeout)\<close>
  and \<open>create_document(collection, record)\<close>.\<close>

datatype effect =
    ForwarderCall string "(string \<times> json) list" nat
  | PersistenceWrite string AttendanceRecord

text \<open>
  The runtime of one request.
  \<^item> \<open>getenv\<close>: \<open>os.getenv\<close>, \<open>None\<close> for an unset variable;
  \<^item> \<open>py_float\<close>: \<open>float(s)\<close> on a string, \<open>None\<close> when it raises \<open>ValueError\<close>;
  \<^item> \<open>str_float\<close>, \<open>format_1f\<close>, \<open>format_0f\<close>: a float formatted in an f-string as
    \<open>{x}\<close>, \<open>{x:.1f}\<close> and \<open>{x:.0f}\<close>;
  \<^item> \<open>now_strftime\<close>: \<open>now.strftime\<close> of the instant \<open>datetime.now()\<close> returned;
  \<^item> \<open>requests_post\<close>: \<open>requests.post(url, json=..., timeout=...)\<close>;
  \<^item> \<open>create_document\<close>: \<open>database.create_document\<close>, returning the inserted id.
\<close>

record runtime =
  getenv :: "string \<Rightarrow> string option"
  py_float :: "string \<Rightarrow> real option"
  str_float :: "real \<Rightarrow> string"
  format_1f :: "real \<Rightarrow> string"
  format_0f :: "real \<Rightarrow> string"
  now_strftime :: "string \<Rightarrow> string"
  requests_post :: "string \<Rightarrow> (string \<times> json) list \<Rightarrow> nat \<Rightarrow> Response attempt"
  create_document :: "string \<Rightarrow> AttendanceRecord \<Rightarrow> string attempt"

subsection \<open>The accuracy gate (lines 61-63)\<close>

text \<open>\<open>os.getenv(key, default)\<close>.\<close>

definition getenv_default :: "runtime \<Rightarrow> string \<Rightarrow> string \<Rightarrow> string" where
  "getenv_default rt k d = (case getenv rt k of None \<Rightarrow> d | Some s \<Rightarrow> s)"

definition accuracy_detail :: "runtime \<Rightarrow> real \<Rightarrow> string" where
  "accuracy_detail rt max_accuracy =
     ''Location accuracy too low (> '' @ str_float rt max_accuracy @ '' m)''"

definition accuracy_gate :: "runtime \<Rightarrow> AttendanceIn \<Rightarrow> exn + real" where
  "accuracy_gate rt payload =
     (case py_float rt (getenv_default rt ''MAX_ALLOWED_ACCURACY_M'' ''50'') of
        None \<Rightarrow> Inl ValueError
      | Some max_accuracy \<Rightarrow>
          if AttendanceIn.accuracy_m payload > max_accuracy
          then Inl (HTTPException 400 (accuracy_detail rt max_accuracy))
          else Inr max_accuracy)"

subsection \<open>The geofence check (lines 71-90)\<close>

text \<open>\<open>float(os.getenv(k)) if os.getenv(k) else None\<close>: an unset or empty variable is
  \<open>None\<close>, any other value is parsed and may raise.\<close>

definition env_float :: "runtime \<Rightarrow> string \<Rightarrow> exn + real option" where
  "env_float rt k =
     (case getenv rt k of
        None \<Rightarrow> Inr None
      | Some s \<Rightarrow>
          if s = [] then Inr None
          else (case py_float rt s of
                  None \<Rightarrow> Inl ValueError
                | Some x \<Rightarrow> Inr (Some x)))"

text \<open>Lines 79-84, the distance in metres.\<close>

definition dist_m :: "real \<Rightarrow> real \<Rightarrow> real \<Rightarrow> real \<Rightarrow> exn + real" where
  "dist_m lat lng office_lat office_lng =
     (let R = 6371000;
          dlat = radians (lat - office_lat);
          dlon = radians (lng - office_lng);
          a = (sin (dlat / 2))\<^sup>2
              + cos (radians office_lat) * cos (radians lat) * (sin (dlon / 2))\<^sup>2
      in case py_sqrt a of
           Inl e \<Rightarrow> Inl e
         | Inr sa \<Rightarrow>
             (case py_sqrt (1 - a) of
                Inl e \<Rightarrow> Inl e
              | Inr sb \<Rightarrow> (let c = 2 * atan2 sa sb in Inr (R * c))))"

definition geofence_detail :: "runtime \<Rightarrow> real \<Rightarrow> real \<Rightarrow> string" where
  "geofence_detail rt d office_radius =
     ''Outside geofence (distance '' @ format_1f rt d @ '' m > ''
       @ format_0f rt office_radius @ '' m)''"

text \<open>The body of the \<open>try\<close>.\<close>

definition geofence_try :: "runtime \<Rightarrow> AttendanceIn \<Rightarrow> exn + bool option" where
  "geofence_try rt payload =
     (case env_float rt ''OFFICE_LAT'' of
        Inl e \<Rightarrow> Inl e
      | Inr office_lat \<Rightarrow>
     (case env_float rt ''OFFICE_LNG'' of
        Inl e \<Rightarrow> Inl e
      | Inr office_lng \<Rightarrow>
     (case env_float rt ''OFFICE_RADIUS_M'' of
        Inl e \<Rightarrow> Inl e
      | Inr office_radius \<Rightarrow>
     (case (office_lat, office_lng, office_radius) of
        (Some olat, Some olng, Some orad) \<Rightarrow>
          (case dist_m (AttendanceIn.latitude payload) (AttendanceIn.longitude payload)
                  olat olng of
             Inl e \<Rightarrow> Inl e
           | Inr d \<Rightarrow>
               (let ok = (d \<le> orad)
                in if \<not> ok then Inl (HTTPException 400 (geofence_detail rt d orad))
                   else Inr (Some ok)))
      | _ \<Rightarrow> Inr None))))"

text \<open>The \<open>try\<close> with its handler: \<open>except ValueError\<close> resets the verdict to \<open>None\<close>
  and the handler goes on; an \<open>HTTPException\<close> leaves the function.\<close>

definition geofence :: "runtime \<Rightarrow> AttendanceIn \<Rightarrow> exn + bool option" where
  "geofence rt payload =
     (case geofence_try rt payload of
        Inl ValueError \<Rightarrow> Inr None
      | Inl (HTTPException c d) \<Rightarrow> Inl (HTTPException c d)
      | Inr g \<Rightarrow> Inr g)"

subsection \<open>Record, forwarder, persistence, response (lines 92-164)\<close>

definition build_record :: "runtime \<Rightarrow> AttendanceIn \<Rightarrow> bool option \<Rightarrow> AttendanceRecord" where
  "build_record rt payload g =
     \<lparr> AttendanceRecord.name = AttendanceIn.name payload,
       AttendanceRecord.email = AttendanceIn.email payload,
       AttendanceRecord.date = now_strftime rt ''%Y-%m-%d'',
       AttendanceRecord.time = now_strftime rt ''%H:%M:%S'',
       AttendanceRecord.latitude = AttendanceIn.latitude payload,
       AttendanceRecord.longitude = AttendanceIn.longitude payload,
       AttendanceRecord.accuracy_m = AttendanceIn.accuracy_m payload,
       AttendanceRecord.photo_url = None,
       AttendanceRecord.geofence_ok = g,
       AttendanceRecord.raw_photo_base64 = AttendanceIn.photo_base64 payload \<rparr>"

definition gs_payload :: "runtime \<Rightarrow> AttendanceRecord \<Rightarrow> (string \<times> json) list" where
  "gs_payload rt r =
     [ (''name'', JStr (AttendanceRecord.name r)),
       (''email'', JStr (AttendanceRecord.email r)),
       (''date'', JStr (AttendanceRecord.date r)),
       (''time'', JStr (AttendanceRecord.time r)),
       (''latitude'', JNum (AttendanceRecord.latitude r)),
       (''longitude'', JNum (AttendanceRecord.longitude r)),
       (''accuracy_m'', JNum (AttendanceRecord.accuracy_m r)),
       (''month_tab'', JStr (now_strftime rt ''%b-%Y'')),
       (''photo_base64'', opt_str (AttendanceRecord.raw_photo_base64 r)),
       (''geofence_ok'', opt_bool (AttendanceRecord.geofence_ok r)) ]"

text \<open>Lines 131-135: the photo URL read from a 200 response. \<open>resp.json()\<close> raising, and
  \<open>.get\<close> on a value that is not a dict, are caught by \<open>except Exception: pass\<close>, which
  leaves \<open>photo_url_from_apps\<close> at \<open>None\<close>.\<close>

definition photo_url_from :: "Response \<Rightarrow> json" where
  "photo_url_from resp =
     (case json_body resp of
        None \<Rightarrow> JNull
      | Some (JObj kvs) \<Rightarrow> py_or (dict_get kvs ''photoUrl'') (dict_get kvs ''photo_url'')
      | Some _ \<Rightarrow> JNull)"

text \<open>Lines 107-139. The result is the calls made and the three variables
  \<open>photo_url_from_apps\<close>, \<open>forwarded_ok\<close> and \<open>apps_script_error\<close>.\<close>

definition forward :: "runtime \<Rightarrow> AttendanceRecord \<Rightarrow> effect list \<times> json \<times> bool \<times> string option" where
  "forward rt r =
     (case getenv rt ''APPS_SCRIPT_URL'' of
        None \<Rightarrow> ([], JNull, False, None)
      | Some apps_script_url \<Rightarrow>
          if apps_script_url = [] then ([], JNull, False, None)
          else
            ([ForwarderCall apps_script_url (gs_payload rt r) 15],
             (case requests_post rt apps_script_url (gs_payload rt r) 15 of
                Raised e \<Rightarrow> (JNull, False, Some e)
              | Returned resp \<Rightarrow>
                  if status_code resp = 200 then (photo_url_from resp, True, None)
                  else (JNull, False,
                        Some (''Apps Script HTTP '' @ str_int (status_code resp) @ '': ''
                              @ take 200 (text_str resp))))))"

text \<open>Lines 142-145.\<close>

definition persist :: "runtime \<Rightarrow> AttendanceRecord \<Rightarrow> effect list \<times> string option" where
  "persist rt r =
     ([PersistenceWrite ''attendancerecord'' r],
      (case create_document rt ''attendancerecord'' r of
         Raised e \<Rightarrow> None
       | Returned i \<Rightarrow> Some i))"

text \<open>\<open>os.getenv("SHEETS_DASHBOARD_URL") or None\<close>.\<close>

definition dashboard :: "runtime \<Rightarrow> string option" where
  "dashboard rt =
     (case getenv rt ''SHEETS_DASHBOARD_URL'' of
        None \<Rightarrow> None
      | Some s \<Rightarrow> if s = [] then None else Some s)"

text \<open>Lines 92-164: what the handler does once both gates have passed.\<close>

definition dispatch :: "runtime \<Rightarrow> AttendanceIn \<Rightarrow> bool option \<Rightarrow> effect list \<times> response" where
  "dispatch rt payload g =
     (let r = build_record rt payload g;
          (fx1, photo_url_from_apps, forwarded_ok, err) = forward rt r;
          (fx2, ins) = persist rt r
      in (fx1 @ fx2,
          \<lparr> success = True,
            message = ''Attendance marked successfully!'',
            data = \<lparr> inserted_id = ins,
                     date = AttendanceRecord.date r,
                     time = AttendanceRecord.time r,
                     latitude = AttendanceRecord.latitude r,
                     longitude = AttendanceRecord.longitude r,
                     accuracy_m = AttendanceRecord.accuracy_m r,
                     geofence_ok = AttendanceRecord.geofence_ok r,
                     photo_url = photo_url_from_apps,
                     apps_script_forwarded = forwarded_ok,
                     apps_script_error = err \<rparr>,
            dashboard_url = dashboard rt \<rparr>))"

text \<open>The handler: the calls made to the sinks, and the exception raised or the
  response returned.\<close>

definition submit_attendance :: "runtime \<Rightarrow> AttendanceIn \<Rightarrow> effect list \<times> (exn + response)" where
  "submit_attendance rt payload =
     (case accuracy_gate rt payload of
        Inl e \<Rightarrow> ([], Inl e)
      | Inr max_accuracy \<Rightarrow>
          (case geofence rt payload of
             Inl e \<Rightarrow> ([], Inl e)
           | Inr g \<Rightarrow> (case dispatch rt payload g of (fx, resp) \<Rightarrow> (fx, Inr resp))))"

subsection \<open>The haversine formula, as the specification writes it\<close>

text \<open>Great-circle distance in metres between the points \<open>(lat1, lon1)\<close> and
  \<open>(lat2, lon2)\<close>, given in degrees, on a sphere of radius 6,371,000 m:
  \<open>a = sin\<^sup>2(\<Delta>lat/2) + cos(lat1) cos(lat2) sin\<^sup>2(\<Delta>lon/2)\<close> and
  \<open>distance = 2 R atan2(\<surd>a, \<surd>(1 - a))\<close>, the angles taken in radians.\<close>

definition haversine :: "real \<Rightarrow> real \<Rightarrow> real \<Rightarrow> real \<Rightarrow> real" where
  "haversine lat1 lon1 lat2 lon2 =
     (let R = 6371000;
          dlat = radians (lat2 - lat1);
          dlon = radians (lon2 - lon1);
          a = (sin (dlat / 2))\<^sup>2
              + cos (radians lat1) * cos (radians lat2) * (sin (dlon / 2))\<^sup>2
      in 2 * R * atan2 (sqrt a) (sqrt (1 - a)))"

subsection \<open>A runtime to run the handler on\<close>

text \<open>\<open>float(s)\<close> on the strings of decimal digits, where it returns the number
  they write; every other string is refused.\<close>

definition digits_float :: "string \<Rightarrow> real option" where
  "digits_float s =
     (if s \<noteq> [] \<and> list_all (\<lambda>c. 48 \<le> (of_char c :: nat) \<and> (of_char c :: nat) \<le> 57) s
      then Some (real (foldl (\<lambda>n c. 10 * n + (of_char c - 48)) 0 s))
      else None)"

text \<open>A clock stopped on 3 November 2025, 09:15:00.\<close>

definition stopped_clock :: "string \<Rightarrow> string" where
  "stopped_clock fmt =
     (if fmt = ''%Y-%m-%d'' then ''2025-11-03''
      else if fmt = ''%H:%M:%S'' then ''09:15:00''
      else if fmt = ''%b-%Y'' then ''Nov-2025''
      else fmt)"

text \<open>The runtime with the environment \<open>env\<close>, an HTTP client \<open>post\<close> and a store
  \<open>store\<close>. Floats with no fractional part print as Python prints them below
  \<open>10\<^sup>1\<^sup>6\<close> (\<open>50.0\<close>, and \<open>50\<close> under \<open>.0f\<close>); \<open>.1f\<close> rounds to one decimal.\<close>

definition sample_runtime ::
  "(string \<times> string) list \<Rightarrow> (string \<Rightarrow> (string \<times> json) list \<Rightarrow> nat \<Rightarrow> Response attempt)
     \<Rightarrow> (string \<Rightarrow> AttendanceRecord \<Rightarrow> string attempt) \<Rightarrow> runtime" where
  "sample_runtime env post store =
     \<lparr> getenv = map_of env,
       py_float = digits_float,
       str_float = (\<lambda>x. str_int \<lfloor>x\<rfloor> @ ''.0''),
       format_1f = (\<lambda>x. str_int (round (10 * x) div 10) @ ''.''
                          @ str_int (round (10 * x) mod 10)),
       format_0f = (\<lambda>x. str_int (round x)),
       now_strftime = stopped_clock,
       requests_post = post,
       create_document = store \<rparr>"

definition sample_payload :: "real \<Rightarrow> real \<Rightarrow> real \<Rightarrow> AttendanceIn" where
  "sample_payload lat lng acc =
     \<lparr> AttendanceIn.name = ''Ada'',
       AttendanceIn.email = ''ada@example.org'',
       AttendanceIn.latitude = lat,
       AttendanceIn.longitude = lng,
       AttendanceIn.accuracy_m = acc,
       AttendanceIn.photo_base64 = None \<rparr>"

text \<open>A forwarder that answers every request with the same response, one that never
  answers, a store that returns the same id and one that is down.\<close>

definition post_returns :: "Response \<Rightarrow> string \<Rightarrow> (string \<times> json) list \<Rightarrow> nat \<Rightarrow> Response attempt" where
  "post_returns resp url body timeout = Returned resp"

definition post_raises :: "string \<Rightarrow> string \<Rightarrow> (string \<times> json) list \<Rightarrow> nat \<Rightarrow> Response attempt" where
  "post_raises e url body timeout = Raised e"

definition store_returns :: "string \<Rightarrow> string \<Rightarrow> AttendanceRecord \<Rightarrow> string attempt" where
  "store_returns i collection r = Returned i"

definition store_raises :: "string \<Rightarrow> string \<Rightarrow> AttendanceRecord \<Rightarrow> string attempt" where
  "store_raises e collection r = Raised e"

section \<open>Lemmas\<close>

subsection \<open>The distance is always defined\<close>

lemma sin_half_sq: "(sin (x / 2))\<^sup>2 = (1 - cos x) / (2::real)"
  using cos_double_sin [of "x / 2"] by simp

lemma half_one_plus_cos: "0 \<le> (1 + cos (x::real)) / 2"
proof -
  have "- 1 \<le> cos x" by (rule cos_ge_minus_one)
  then have "0 \<le> 1 + cos x" by linarith
  then show ?thesis by simp
qed

lemma radians_diff: "radians (x - y) = radians x - radians y"
  by (simp add: radians_def left_diff_distrib)

lemma hav_a_bounds:
  fixes p q l :: real
  defines "a \<equiv> (sin ((p - q) / 2))\<^sup>2 + cos q * cos p * (sin (l / 2))\<^sup>2"
  shows "0 \<le> a" and "a \<le> 1"
proof -
  define s where "s = (sin (l / 2))\<^sup>2"
  have s0: "0 \<le> s" by (simp add: s_def)
  have s1: "s \<le> 1"
    unfolding s_def
    using sin_cos_squared_add [of "l / 2"] zero_le_power2 [of "cos (l / 2)"] by linarith
  have a0: "a = (1 - cos (p - q)) / 2 + cos q * cos p * s"
    unfolding a_def s_def sin_half_sq [of "p - q"] ..
  have a_eq: "a = (1 - s) * ((1 - cos (p - q)) / 2) + s * ((1 + cos (p + q)) / 2)"
    unfolding a0 cos_diff cos_add by (simp add: field_simps)
  have a_eq': "1 - a = (1 - s) * ((1 + cos (p - q)) / 2) + s * ((1 - cos (p + q)) / 2)"
    unfolding a0 cos_diff cos_add by (simp add: field_simps)
  have d1: "0 \<le> (1 - cos (p - q)) / 2" by simp
  have d2: "0 \<le> (1 + cos (p + q)) / 2" by (rule half_one_plus_cos)
  have d3: "0 \<le> (1 + cos (p - q)) / 2" by (rule half_one_plus_cos)
  have d4: "0 \<le> (1 - cos (p + q)) / 2" by simp
  have s1': "0 \<le> 1 - s" using s1 by simp
  show "0 \<le> a"
    unfolding a_eq using mult_nonneg_nonneg [OF s1' d1] mult_nonneg_nonneg [OF s0 d2] by linarith
  have "0 \<le> 1 - a"
    unfolding a_eq' using mult_nonneg_nonneg [OF s1' d3] mult_nonneg_nonneg [OF s0 d4] by linarith
  then show "a \<le> 1" by simp
qed

lemma sin_half_diff_sq: "(sin ((x - y) / 2))\<^sup>2 = (sin ((y - x) / 2 :: real))\<^sup>2"
proof -
  have "(x - y) / 2 = - ((y - x) / 2)" by (simp add: field_simps)
  then have "sin ((x - y) / 2) = - sin ((y - x) / 2)" by (simp only: sin_minus)
  then show ?thesis by simp
qed

lemma dist_m_haversine:
  "dist_m lat lng office_lat office_lng = Inr (haversine lat lng office_lat office_lng)"
proof -
  define a where "a = (sin (radians (lat - office_lat) / 2))\<^sup>2
      + cos (radians office_lat) * cos (radians lat) * (sin (radians (lng - office_lng) / 2))\<^sup>2"
  have a': "a = (sin ((radians lat - radians office_lat) / 2))\<^sup>2
      + cos (radians office_lat) * cos (radians lat) * (sin (radians (lng - office_lng) / 2))\<^sup>2"
    by (simp add: a_def radians_diff)
  have a0: "\<not> a < 0" and a1: "\<not> 1 - a < 0"
    using hav_a_bounds [of "radians lat" "radians office_lat" "radians (lng - office_lng)"]
    unfolding a' by simp_all
  have code: "dist_m lat lng office_lat office_lng = Inr (6371000 * (2 * atan2 (sqrt a) (sqrt (1 - a))))"
    unfolding dist_m_def Let_def a_def [symmetric] py_sqrt_def using a0 a1 by simp
  have b: "(sin (radians (office_lat - lat) / 2))\<^sup>2 = (sin (radians (lat - office_lat) / 2))\<^sup>2"
    unfolding radians_diff by (rule sin_half_diff_sq)
  have c: "(sin (radians (office_lng - lng) / 2))\<^sup>2 = (sin (radians (lng - office_lng) / 2))\<^sup>2"
    unfolding radians_diff by (rule sin_half_diff_sq)
  have spec: "haversine lat lng office_lat office_lng = 2 * 6371000 * atan2 (sqrt a) (sqrt (1 - a))"
    unfolding haversine_def Let_def b c a_def by (simp add: mult.commute)
  show ?thesis unfolding code spec by simp
qed

subsection \<open>The handler, stage by stage\<close>

lemma submit_gate_raises:
  "accuracy_gate rt p = Inl e \<Longrightarrow> submit_attendance rt p = ([], Inl e)"
  by (simp add: submit_attendance_def)

lemma submit_geofence_raises:
  "accuracy_gate rt p = Inr m \<Longrightarrow> geofence rt p = Inl e \<Longrightarrow> submit_attendance rt p = ([], Inl e)"
  by (simp add: submit_attendance_def)

lemma submit_dispatch:
  "accuracy_gate rt p = Inr m \<Longrightarrow> geofence rt p = Inr g \<Longrightarrow>
   submit_attendance rt p = (fst (dispatch rt p g), Inr (snd (dispatch rt p g)))"
  by (simp add: submit_attendance_def split: prod.splits)

lemma accuracy_gate_exn:
  "accuracy_gate rt p = Inl e \<Longrightarrow>
   e = ValueError \<or> (\<exists>m. e = HTTPException 400 (accuracy_detail rt m))"
  by (auto simp: accuracy_gate_def split: option.splits if_splits)

lemma env_float_exn: "env_float rt k = Inl e \<Longrightarrow> e = ValueError"
  by (auto simp: env_float_def split: option.splits if_splits)

lemma geofence_exn:
  "geofence rt p = Inl e \<Longrightarrow> \<exists>d r. e = HTTPException 400 (geofence_detail rt d r)"
  by (auto simp: geofence_def geofence_try_def Let_def dist_m_haversine dest: env_float_exn
      split: sum.splits option.splits if_splits exn.splits)

lemma geofence_verdict: "geofence rt p = Inr g \<Longrightarrow> g = None \<or> g = Some True"
  by (auto simp: geofence_def geofence_try_def Let_def
      split: sum.splits option.splits if_splits exn.splits)

lemma dispatch_fields:
  "success (snd (dispatch rt p g))"
  "geofence_ok (data (snd (dispatch rt p g))) = g"
  "inserted_id (data (snd (dispatch rt p g))) = snd (persist rt (build_record rt p g))"
  "apps_script_forwarded (data (snd (dispatch rt p g))) = fst (snd (snd (forward rt (build_record rt p g))))"
  "apps_script_error (data (snd (dispatch rt p g))) = snd (snd (snd (forward rt (build_record rt p g))))"
  "photo_url (data (snd (dispatch rt p g))) = fst (snd (forward rt (build_record rt p g)))"
  "fst (dispatch rt p g) = fst (forward rt (build_record rt p g)) @ fst (persist rt (build_record rt p g))"
  by (simp_all add: dispatch_def Let_def build_record_def split: prod.splits)

lemma persist_effect: "fst (persist rt r) = [PersistenceWrite ''attendancerecord'' r]"
  by (simp add: persist_def)

lemma env_float_unusable:
  assumes "getenv rt k = None \<or> (\<exists>s. getenv rt k = Some s \<and> py_float rt s = None)"
  shows "env_float rt k = Inr None \<or> env_float rt k = Inl ValueError"
  using assms by (auto simp: env_float_def split: if_splits)

lemma env_float_cases:
  "env_float rt k = Inl ValueError \<or> (\<exists>v. env_float rt k = Inr v)"
  by (auto simp: env_float_def split: option.splits)

lemma geofence_try_lat:
  "env_float rt ''OFFICE_LAT'' = Inr None \<or> env_float rt ''OFFICE_LAT'' = Inl ValueError \<Longrightarrow>
   geofence_try rt p = Inr None \<or> geofence_try rt p = Inl ValueError"
  using env_float_cases [of rt "''OFFICE_LNG''"] env_float_cases [of rt "''OFFICE_RADIUS_M''"]
  by (auto simp: geofence_try_def split: option.splits)

lemma geofence_try_lng:
  "env_float rt ''OFFICE_LNG'' = Inr None \<or> env_float rt ''OFFICE_LNG'' = Inl ValueError \<Longrightarrow>
   geofence_try rt p = Inr None \<or> geofence_try rt p = Inl ValueError"
  using env_float_cases [of rt "''OFFICE_LAT''"] env_float_cases [of rt "''OFFICE_RADIUS_M''"]
  by (auto simp: geofence_try_def split: option.splits)

lemma geofence_try_radius:
  "env_float rt ''OFFICE_RADIUS_M'' = Inr None \<or> env_float rt ''OFFICE_RADIUS_M'' = Inl ValueError \<Longrightarrow>
   geofence_try rt p = Inr None \<or> geofence_try rt p = Inl ValueError"
  using env_float_cases [of rt "''OFFICE_LAT''"] env_float_cases [of rt "''OFFICE_LNG''"]
  by (auto simp: geofence_try_def split: option.splits)

lemma geofence_of_try:
  "geofence_try rt p = Inr None \<or> geofence_try rt p = Inl ValueError \<Longrightarrow> geofence rt p = Inr None"
  by (auto simp: geofence_def)

subsection \<open>Forwarder and store\<close>

lemma forward_skipped:
  "getenv rt ''APPS_SCRIPT_URL'' = None \<Longrightarrow> forward rt r = ([], JNull, False, None)"
  by (simp add: forward_def)

lemma forward_raised:
  "getenv rt ''APPS_SCRIPT_URL'' = Some url \<Longrightarrow> url \<noteq> [] \<Longrightarrow>
   requests_post rt url (gs_payload rt r) 15 = Raised e \<Longrightarrow>
   forward rt r = ([ForwarderCall url (gs_payload rt r) 15], JNull, False, Some e)"
  by (simp add: forward_def)

lemma forward_bad_status:
  "getenv rt ''APPS_SCRIPT_URL'' = Some url \<Longrightarrow> url \<noteq> [] \<Longrightarrow>
   requests_post rt url (gs_payload rt r) 15 = Returned resp \<Longrightarrow> status_code resp \<noteq> 200 \<Longrightarrow>
   forward rt r =
     ([ForwarderCall url (gs_payload rt r) 15], JNull, False,
      Some (''Apps Script HTTP '' @ str_int (status_code resp) @ '': '' @ take 200 (text_str resp)))"
  by (simp add: forward_def)

lemma forward_ok_status:
  "getenv rt ''APPS_SCRIPT_URL'' = Some url \<Longrightarrow> url \<noteq> [] \<Longrightarrow>
   requests_post rt url (gs_payload rt r) 15 = Returned resp \<Longrightarrow> status_code resp = 200 \<Longrightarrow>
   forward rt r = ([ForwarderCall url (gs_payload rt r) 15], photo_url_from resp, True, None)"
  by (simp add: forward_def)

lemma persist_raised:
  "create_document rt ''attendancerecord'' r = Raised e \<Longrightarrow> snd (persist rt r) = None"
  by (simp add: persist_def)

lemma write_in_dispatch:
  "PersistenceWrite ''attendancerecord'' (build_record rt p g) \<in> set (fst (dispatch rt p g))"
  by (simp add: dispatch_fields persist_effect)

lemma store_irrelevant_parts:
  "accuracy_detail (rt\<lparr>create_document := cd\<rparr>) m = accuracy_detail rt m"
  "getenv_default (rt\<lparr>create_document := cd\<rparr>) k d = getenv_default rt k d"
  "env_float (rt\<lparr>create_document := cd\<rparr>) k = env_float rt k"
  "geofence_detail (rt\<lparr>create_document := cd\<rparr>) x y = geofence_detail rt x y"
  "gs_payload (rt\<lparr>create_document := cd\<rparr>) r = gs_payload rt r"
  by (simp_all add: accuracy_detail_def getenv_default_def env_float_def geofence_detail_def
      gs_payload_def cong: option.case_cong if_cong)

lemma store_irrelevant:
  "accuracy_gate (rt\<lparr>create_document := cd\<rparr>) p = accuracy_gate rt p"
  "geofence (rt\<lparr>create_document := cd\<rparr>) p = geofence rt p"
  "build_record (rt\<lparr>create_document := cd\<rparr>) p g = build_record rt p g"
  "forward (rt\<lparr>create_document := cd\<rparr>) r = forward rt r"
  "dashboard (rt\<lparr>create_document := cd\<rparr>) = dashboard rt"
  by (simp_all add: accuracy_gate_def geofence_def geofence_try_def build_record_def
      forward_def dashboard_def store_irrelevant_parts Let_def
      cong: option.case_cong sum.case_cong prod.case_cong if_cong)

lemma dispatch_store_irrelevant:
  "snd (dispatch (rt\<lparr>create_document := cd\<rparr>) p g)
     \<lparr>data := (data (snd (dispatch (rt\<lparr>create_document := cd\<rparr>) p g)))\<lparr>inserted_id := None\<rparr>\<rparr>
   = snd (dispatch rt p g)\<lparr>data := (data (snd (dispatch rt p g)))\<lparr>inserted_id := None\<rparr>\<rparr>"
  by (simp add: dispatch_def Let_def store_irrelevant split: prod.splits)

lemma haversine_same_point: "haversine lat lng lat lng = 0"
  by (simp add: haversine_def radians_def atan2_def)

lemma haversine_half_turn: "haversine 0 180 0 0 = 6371000 * pi"
  by (simp add: haversine_def radians_def atan2_def)

lemma sample_gate:
  "accuracy_gate (sample_runtime env post store) (sample_payload lat lng 10) =
     (case map_of env ''MAX_ALLOWED_ACCURACY_M'' of
        None \<Rightarrow> Inr 50
      | Some s \<Rightarrow> accuracy_gate (sample_runtime env post store) (sample_payload lat lng 10))"
  by (simp add: accuracy_gate_def getenv_default_def sample_runtime_def sample_payload_def
      digits_float_def split: option.splits)

lemma photo_url_unparseable: "json_body resp = None \<Longrightarrow> photo_url_from resp = JNull"
  by (simp add: photo_url_from_def)

section \<open>The claims of the specification\<close>

text \<open>
  C1. When the configured maximum parses to \<open>m\<close> (the variable MAX_ALLOWED_ACCURACY_M, or
  the string \<open>50\<close> when it is unset): a submission with \<open>accuracy_m > m\<close> is rejected with
  status 400 and the message "Location accuracy too low (> m m)", and no call to the
  forwarder or to the store is made; a submission with \<open>accuracy_m \<le> m\<close> passes the gate,
  and the handler does not raise that rejection.
\<close>

theorem accuracy_gate_rejects_exactly_above_max:
  assumes "py_float rt (getenv_default rt ''MAX_ALLOWED_ACCURACY_M'' ''50'') = Some m"
  shows "(m < AttendanceIn.accuracy_m p \<longrightarrow>
            submit_attendance rt p =
              ([], Inl (HTTPException 400
                     (''Location accuracy too low (> '' @ str_float rt m @ '' m)''))))
       \<and> (AttendanceIn.accuracy_m p \<le> m \<longrightarrow>
            accuracy_gate rt p = Inr m
            \<and> (\<forall>x. snd (submit_attendance rt p)
                   \<noteq> Inl (HTTPException 400 (''Location accuracy too low (> '' @ x @ '' m)''))))
       \<and> (getenv rt ''MAX_ALLOWED_ACCURACY_M'' = None \<longrightarrow> py_float rt ''50'' = Some m)"
proof (intro conjI impI)
  assume "m < AttendanceIn.accuracy_m p"
  with assms have "accuracy_gate rt p = Inl (HTTPException 400 (accuracy_detail rt m))"
    by (simp add: accuracy_gate_def)
  then show "submit_attendance rt p =
      ([], Inl (HTTPException 400 (''Location accuracy too low (> '' @ str_float rt m @ '' m)'')))"
    by (simp add: submit_gate_raises accuracy_detail_def)
next
  assume le: "AttendanceIn.accuracy_m p \<le> m"
  with assms show gate: "accuracy_gate rt p = Inr m"
    by (simp add: accuracy_gate_def)
  show "\<forall>x. snd (submit_attendance rt p)
          \<noteq> Inl (HTTPException 400 (''Location accuracy too low (> '' @ x @ '' m)''))"
  proof (cases "geofence rt p")
    case (Inl e)
    then obtain d r where "e = HTTPException 400 (geofence_detail rt d r)"
      using geofence_exn by blast
    with Inl gate show ?thesis
      by (simp add: submit_geofence_raises geofence_detail_def)
  next
    case (Inr g)
    with gate show ?thesis by (simp add: submit_dispatch)
  qed
next
  assume "getenv rt ''MAX_ALLOWED_ACCURACY_M'' = None"
  with assms show "py_float rt ''50'' = Some m"
    by (simp add: getenv_default_def)
qed

theorem accuracy_gate_rejects_exactly_above_max_witness:
  "submit_attendance (sample_runtime [] (post_raises ''timeout'') (store_returns ''id1''))
       (sample_payload 0 0 60)
     = ([], Inl (HTTPException 400 ''Location accuracy too low (> 50.0 m)''))
   \<and> accuracy_gate (sample_runtime [] (post_raises ''timeout'') (store_returns ''id1''))
       (sample_payload 0 0 50) = Inr 50"
proof -
  let ?rt = "sample_runtime [] (post_raises ''timeout'') (store_returns ''id1'')"
  have m: "py_float ?rt (getenv_default ?rt ''MAX_ALLOWED_ACCURACY_M'' ''50'') = Some 50"
    by (simp add: sample_runtime_def getenv_default_def digits_float_def)
  have s: "str_float ?rt 50 = ''50.0''"
    by (simp add: sample_runtime_def str_int_def char_of_eq_iff)
  have a: "(50::real) < AttendanceIn.accuracy_m (sample_payload 0 0 60)"
    by (simp add: sample_payload_def)
  have b: "AttendanceIn.accuracy_m (sample_payload 0 0 50) \<le> (50::real)"
    by (simp add: sample_payload_def)
  from accuracy_gate_rejects_exactly_above_max [OF m, of "sample_payload 0 0 60"] a
  have 1: "submit_attendance ?rt (sample_payload 0 0 60)
      = ([], Inl (HTTPException 400 (''Location accuracy too low (> '' @ str_float ?rt 50 @ '' m)'')))"
    by blast
  from accuracy_gate_rejects_exactly_above_max [OF m, of "sample_payload 0 0 50"] b
  have 2: "accuracy_gate ?rt (sample_payload 0 0 50) = Inr 50"
    by blast
  from 1 2 show ?thesis unfolding s by simp
qed

text \<open>
  C2. With the three geofence variables set and numeric, and for a submission that
  passed the accuracy gate: if the computed distance \<open>d\<close> exceeds the radius, the handler
  raises the 400 rejection "Outside geofence (distance d m > radius m)" and calls no
  sink; if \<open>d\<close> is at most the radius, the verdict is \<open>True\<close> and the handler goes on to
  the sinks and returns a response with \<open>geofence_ok = true\<close>.
\<close>

theorem geofence_rejects_outside_and_passes_inside:
  assumes gate: "accuracy_gate rt p = Inr m"
    and lat: "env_float rt ''OFFICE_LAT'' = Inr (Some office_lat)"
    and lng: "env_float rt ''OFFICE_LNG'' = Inr (Some office_lng)"
    and rad: "env_float rt ''OFFICE_RADIUS_M'' = Inr (Some office_radius)"
    and dist: "dist_m (AttendanceIn.latitude p) (AttendanceIn.longitude p) office_lat office_lng
                = Inr d"
  shows "(office_radius < d \<longrightarrow>
            submit_attendance rt p =
              ([], Inl (HTTPException 400
                     (''Outside geofence (distance '' @ format_1f rt d @ '' m > ''
                        @ format_0f rt office_radius @ '' m)''))))
       \<and> (d \<le> office_radius \<longrightarrow>
            geofence rt p = Inr (Some True)
            \<and> (\<exists>fx resp. submit_attendance rt p = (fx, Inr resp)
                  \<and> geofence_ok (data resp) = Some True
                  \<and> PersistenceWrite ''attendancerecord'' (build_record rt p (Some True))
                       \<in> set fx))"
proof (intro conjI impI)
  assume "office_radius < d"
  then have "geofence rt p = Inl (HTTPException 400 (geofence_detail rt d office_radius))"
    using lat lng rad dist by (simp add: geofence_def geofence_try_def)
  from submit_geofence_raises [OF gate this]
  show "submit_attendance rt p =
      ([], Inl (HTTPException 400
             (''Outside geofence (distance '' @ format_1f rt d @ '' m > ''
                @ format_0f rt office_radius @ '' m)'')))"
    by (simp add: geofence_detail_def)
next
  assume "d \<le> office_radius"
  then show geo: "geofence rt p = Inr (Some True)"
    using lat lng rad dist by (simp add: geofence_def geofence_try_def)
  show "\<exists>fx resp. submit_attendance rt p = (fx, Inr resp)
      \<and> geofence_ok (data resp) = Some True
      \<and> PersistenceWrite ''attendancerecord'' (build_record rt p (Some True)) \<in> set fx"
    using submit_dispatch [OF gate geo] write_in_dispatch [of rt p "Some True"]
    by (simp add: dispatch_fields)
qed

theorem geofence_rejects_outside_and_passes_inside_witness:
  "submit_attendance
     (sample_runtime [(''OFFICE_LAT'', ''0''), (''OFFICE_LNG'', ''0''), (''OFFICE_RADIUS_M'', ''100'')]
        (post_raises ''timeout'') (store_returns ''id1''))
     (sample_payload 0 180 10)
   = ([], Inl (HTTPException 400
        (''Outside geofence (distance ''
           @ format_1f (sample_runtime [(''OFFICE_LAT'', ''0''), (''OFFICE_LNG'', ''0''), (''OFFICE_RADIUS_M'', ''100'')]
                (post_raises ''timeout'') (store_returns ''id1'')) (6371000 * pi)
           @ '' m > 100 m)'')))
   \<and> geofence
       (sample_runtime [(''OFFICE_LAT'', ''0''), (''OFFICE_LNG'', ''0''), (''OFFICE_RADIUS_M'', ''100'')]
          (post_raises ''timeout'') (store_returns ''id1''))
       (sample_payload 0 0 10) = Inr (Some True)"
proof -
  let ?rt = "sample_runtime [(''OFFICE_LAT'', ''0''), (''OFFICE_LNG'', ''0''), (''OFFICE_RADIUS_M'', ''100'')]
        (post_raises ''timeout'') (store_returns ''id1'')"
  have lat: "env_float ?rt ''OFFICE_LAT'' = Inr (Some 0)"
    and lng: "env_float ?rt ''OFFICE_LNG'' = Inr (Some 0)"
    and rad: "env_float ?rt ''OFFICE_RADIUS_M'' = Inr (Some 100)"
    by (simp_all add: env_float_def sample_runtime_def digits_float_def)
  have gate: "accuracy_gate ?rt (sample_payload lat' lng' 10) = Inr 50" for lat' lng'
    by (simp add: sample_gate)
  have far: "dist_m (AttendanceIn.latitude (sample_payload 0 180 10))
      (AttendanceIn.longitude (sample_payload 0 180 10)) 0 0 = Inr (6371000 * pi)"
    by (simp add: sample_payload_def dist_m_haversine haversine_half_turn)
  have near: "dist_m (AttendanceIn.latitude (sample_payload 0 0 10))
      (AttendanceIn.longitude (sample_payload 0 0 10)) 0 0 = Inr 0"
    by (simp add: sample_payload_def dist_m_haversine haversine_same_point)
  have gt: "(100::real) < 6371000 * pi"
    using pi_ge_two by linarith
  have r: "format_0f ?rt 100 = ''100''"
    by (simp add: sample_runtime_def str_int_def char_of_eq_iff)
  from geofence_rejects_outside_and_passes_inside [OF gate lat lng rad far] gt
  have 1: "submit_attendance ?rt (sample_payload 0 180 10)
      = ([], Inl (HTTPException 400
           (''Outside geofence (distance '' @ format_1f ?rt (6371000 * pi) @ '' m > ''
              @ format_0f ?rt 100 @ '' m)'')))"
    by blast
  from geofence_rejects_outside_and_passes_inside [OF gate lat lng rad near]
  have 2: "geofence ?rt (sample_payload 0 0 10) = Inr (Some True)"
    by simp
  from 1 2 show ?thesis unfolding r by simp
qed

text \<open>
  C3. For every submitted latitude and longitude and every office latitude and longitude,
  the distance the geofence check computes is the haversine distance on a sphere of
  radius 6,371,000 m: \<open>a = sin\<^sup>2(\<Delta>lat/2) + cos(lat1) cos(lat2) sin\<^sup>2(\<Delta>lon/2)\<close>,
  \<open>distance = 2 R atan2(\<surd>a, \<surd>(1 - a))\<close>, the deltas converted to radians. In
  particular neither square root of the code raises: \<open>a\<close> lies between 0 and 1.
\<close>

theorem distance_is_haversine:
  "dist_m lat lng office_lat office_lng = Inr (haversine lat lng office_lat office_lng)"
  by (rule dist_m_haversine)

text \<open>
  C4. If one of OFFICE_LAT, OFFICE_LNG, OFFICE_RADIUS_M is unset, or set to a string that
  \<open>float\<close> refuses, then whatever the submitted coordinates the geofence check does not
  raise and its verdict is \<open>None\<close>; a submission that passed the accuracy gate is answered
  with a response whose \<open>geofence_ok\<close> is null.
\<close>

theorem geofence_unconfigured_when_any_missing:
  assumes "k = ''OFFICE_LAT'' \<or> k = ''OFFICE_LNG'' \<or> k = ''OFFICE_RADIUS_M''"
    and "getenv rt k = None \<or> (\<exists>s. getenv rt k = Some s \<and> py_float rt s = None)"
  shows "geofence rt p = Inr None
       \<and> (\<forall>m. accuracy_gate rt p = Inr m \<longrightarrow>
             (\<exists>fx resp. submit_attendance rt p = (fx, Inr resp)
                \<and> geofence_ok (data resp) = None))"
proof -
  note u = env_float_unusable [OF assms(2)]
  have "geofence_try rt p = Inr None \<or> geofence_try rt p = Inl ValueError"
    using assms(1) u geofence_try_lat geofence_try_lng geofence_try_radius by blast
  then have geo: "geofence rt p = Inr None" by (rule geofence_of_try)
  show ?thesis
  proof (intro conjI allI impI)
    show "geofence rt p = Inr None" by (rule geo)
  next
    fix m assume gate: "accuracy_gate rt p = Inr m"
    show "\<exists>fx resp. submit_attendance rt p = (fx, Inr resp) \<and> geofence_ok (data resp) = None"
      using submit_dispatch [OF gate geo] by (simp add: dispatch_fields)
  qed
qed

theorem geofence_unconfigured_when_any_missing_witness:
  "geofence
     (sample_runtime [(''OFFICE_LAT'', ''0''), (''OFFICE_LNG'', ''north''), (''OFFICE_RADIUS_M'', ''100'')]
        (post_raises ''timeout'') (store_returns ''id1''))
     (sample_payload 0 180 10) = Inr None
   \<and> (\<exists>fx resp.
        submit_attendance
          (sample_runtime [(''OFFICE_LAT'', ''0''), (''OFFICE_LNG'', ''north''), (''OFFICE_RADIUS_M'', ''100'')]
             (post_raises ''timeout'') (store_returns ''id1''))
          (sample_payload 0 180 10) = (fx, Inr resp)
        \<and> geofence_ok (data resp) = None)"
proof -
  let ?rt = "sample_runtime [(''OFFICE_LAT'', ''0''), (''OFFICE_LNG'', ''north''), (''OFFICE_RADIUS_M'', ''100'')]
        (post_raises ''timeout'') (store_returns ''id1'')"
  have k: "''OFFICE_LNG'' = ''OFFICE_LAT'' \<or> ''OFFICE_LNG'' = ''OFFICE_LNG''
      \<or> ''OFFICE_LNG'' = ''OFFICE_RADIUS_M''"
    by simp
  have u: "getenv ?rt ''OFFICE_LNG'' = None
      \<or> (\<exists>s. getenv ?rt ''OFFICE_LNG'' = Some s \<and> py_float ?rt s = None)"
    by (simp add: sample_runtime_def digits_float_def)
  have gate: "accuracy_gate ?rt (sample_payload 0 180 10) = Inr 50"
    by (simp add: accuracy_gate_def getenv_default_def sample_runtime_def sample_payload_def
        digits_float_def)
  from geofence_unconfigured_when_any_missing [OF k u, of "sample_payload 0 180 10"] gate
  show ?thesis by blast
qed

text \<open>
  C5. For a submission that passed both gates, with a forwarder endpoint configured: if
  the call to the forwarder raises (transport error, timeout) or returns a status other
  than 200, the handler still calls the store and returns a response with
  \<open>success = true\<close>, \<open>apps_script_forwarded = false\<close> and an error detail that is not
  null. For an exception the detail is its text; for a status other than 200 it is
  "Apps Script HTTP", the status code and the first 200 characters of the body.
\<close>

theorem forwarder_failure_is_not_fatal:
  assumes gate: "accuracy_gate rt p = Inr m"
    and geo: "geofence rt p = Inr g"
    and url: "getenv rt ''APPS_SCRIPT_URL'' = Some url" "url \<noteq> []"
    and call: "requests_post rt url (gs_payload rt (build_record rt p g)) 15 = out"
    and fail: "(\<exists>e. out = Raised e) \<or> (\<exists>resp. out = Returned resp \<and> status_code resp \<noteq> 200)"
  shows "\<exists>fx r. submit_attendance rt p = (fx, Inr r)
      \<and> PersistenceWrite ''attendancerecord'' (build_record rt p g) \<in> set fx
      \<and> success r
      \<and> \<not> apps_script_forwarded (data r)
      \<and> apps_script_error (data r) \<noteq> None
      \<and> (\<forall>e. out = Raised e \<longrightarrow> apps_script_error (data r) = Some e)
      \<and> (\<forall>resp. out = Returned resp \<longrightarrow>
            apps_script_error (data r)
              = Some (''Apps Script HTTP '' @ str_int (status_code resp) @ '': ''
                      @ take 200 (text_str resp))
            \<and> length (take 200 (text_str resp)) \<le> 200)"
proof -
  let ?r = "build_record rt p g"
  note run = submit_dispatch [OF gate geo]
  note wr = write_in_dispatch [of rt p g]
  from fail show ?thesis
  proof (elim disjE exE conjE)
    fix e assume "out = Raised e"
    with call have "requests_post rt url (gs_payload rt ?r) 15 = Raised e" by simp
    from forward_raised [OF url this] run wr \<open>out = Raised e\<close> show ?thesis
      by (simp add: dispatch_fields)
  next
    fix resp assume "out = Returned resp" and bad: "status_code resp \<noteq> 200"
    with call have "requests_post rt url (gs_payload rt ?r) 15 = Returned resp" by simp
    from forward_bad_status [OF url this bad] run wr \<open>out = Returned resp\<close> show ?thesis
      by (simp add: dispatch_fields)
  qed
qed

theorem forwarder_failure_is_not_fatal_witness:
  "(\<exists>fx r.
      submit_attendance
        (sample_runtime [(''APPS_SCRIPT_URL'', ''https://script.example/exec'')]
           (post_returns \<lparr>status_code = 500, text_str = replicate 300 CHR ''x'', json_body = None\<rparr>)
           (store_returns ''id1''))
        (sample_payload 0 0 10) = (fx, Inr r)
      \<and> success r
      \<and> \<not> apps_script_forwarded (data r)
      \<and> apps_script_error (data r)
          = Some (''Apps Script HTTP 500: '' @ replicate 200 CHR ''x''))
   \<and> (\<exists>fx r.
      submit_attendance
        (sample_runtime [(''APPS_SCRIPT_URL'', ''https://script.example/exec'')]
           (post_raises ''Read timed out.'') (store_returns ''id1''))
        (sample_payload 0 0 10) = (fx, Inr r)
      \<and> success r
      \<and> \<not> apps_script_forwarded (data r)
      \<and> apps_script_error (data r) = Some ''Read timed out.'')"
proof -
  let ?env = "[(''APPS_SCRIPT_URL'', ''https://script.example/exec'')]"
  let ?resp = "\<lparr>status_code = 500, text_str = replicate 300 CHR ''x'', json_body = None\<rparr>"
  let ?rt1 = "sample_runtime ?env (post_returns ?resp) (store_returns ''id1'')"
  let ?rt2 = "sample_runtime ?env (post_raises ''Read timed out.'') (store_returns ''id1'')"
  let ?p = "sample_payload 0 0 10"
  have gate: "accuracy_gate (sample_runtime ?env post store) ?p = Inr 50" for post store
    by (simp add: sample_gate)
  have geo: "geofence (sample_runtime ?env post store) ?p = Inr None" for post store
    by (simp add: geofence_def geofence_try_def env_float_def sample_runtime_def)
  have url: "getenv (sample_runtime ?env post store) ''APPS_SCRIPT_URL''
      = Some ''https://script.example/exec''" for post store
    by (simp add: sample_runtime_def)
  have ne: "''https://script.example/exec'' \<noteq> []" by simp
  have call1: "requests_post ?rt1 ''https://script.example/exec''
      (gs_payload ?rt1 (build_record ?rt1 ?p None)) 15 = Returned ?resp"
    by (simp add: sample_runtime_def post_returns_def)
  have call2: "requests_post ?rt2 ''https://script.example/exec''
      (gs_payload ?rt2 (build_record ?rt2 ?p None)) 15 = Raised ''Read timed out.''"
    by (simp add: sample_runtime_def post_raises_def)
  have fail1: "(\<exists>e. Returned ?resp = Raised e)
      \<or> (\<exists>resp. Returned ?resp = Returned resp \<and> status_code resp \<noteq> 200)"
    by simp
  have fail2: "(\<exists>e. (Raised ''Read timed out.'' :: Response attempt) = Raised e)
      \<or> (\<exists>resp. Raised ''Read timed out.'' = Returned resp \<and> status_code resp \<noteq> 200)"
    by simp
  have code: "str_int 500 = ''500''"
    by (simp add: str_int_def char_of_eq_iff)
  from forwarder_failure_is_not_fatal [OF gate geo url ne call1 fail1]
  have 1: "\<exists>fx r. submit_attendance ?rt1 ?p = (fx, Inr r) \<and> success r
      \<and> \<not> apps_script_forwarded (data r)
      \<and> apps_script_error (data r) = Some (''Apps Script HTTP 500: '' @ replicate 200 CHR ''x'')"
    by (auto simp: code)
  from forwarder_failure_is_not_fatal [OF gate geo url ne call2 fail2]
  have 2: "\<exists>fx r. submit_attendance ?rt2 ?p = (fx, Inr r) \<and> success r
      \<and> \<not> apps_script_forwarded (data r)
      \<and> apps_script_error (data r) = Some ''Read timed out.''"
    by auto
  from 1 2 show ?thesis by (rule conjI)
qed

text \<open>
  C6. For a submission that passed both gates, if the call to the store raises, the
  handler raises nothing: it returns a response with \<open>success = true\<close> and a null id.
  Whatever the store had done instead, the response would be the same but for the id:
  \<open>apps_script_forwarded\<close>, \<open>apps_script_error\<close> and \<open>geofence_ok\<close> do not depend on the
  store, and the failure of the store appears nowhere in the response.
\<close>

theorem persistence_failure_is_swallowed:
  assumes gate: "accuracy_gate rt p = Inr m"
    and geo: "geofence rt p = Inr g"
    and store: "create_document rt ''attendancerecord'' (build_record rt p g) = Raised e"
  shows "\<exists>fx resp. submit_attendance rt p = (fx, Inr resp)
      \<and> success resp
      \<and> inserted_id (data resp) = None
      \<and> (\<forall>cd. \<exists>fx' resp'.
            submit_attendance (rt\<lparr>create_document := cd\<rparr>) p = (fx', Inr resp')
            \<and> apps_script_forwarded (data resp) = apps_script_forwarded (data resp')
            \<and> apps_script_error (data resp) = apps_script_error (data resp')
            \<and> geofence_ok (data resp) = geofence_ok (data resp')
            \<and> resp = resp'\<lparr>data := (data resp')\<lparr>inserted_id := None\<rparr>\<rparr>)"
proof -
  let ?resp = "snd (dispatch rt p g)"
  note run = submit_dispatch [OF gate geo]
  have none: "inserted_id (data ?resp) = None"
    using persist_raised [OF store] by (simp add: dispatch_fields)
  have same: "?resp\<lparr>data := (data ?resp)\<lparr>inserted_id := None\<rparr>\<rparr> = ?resp"
    using none by simp
  have other: "\<exists>fx' resp'.
      submit_attendance (rt\<lparr>create_document := cd\<rparr>) p = (fx', Inr resp')
      \<and> apps_script_forwarded (data ?resp) = apps_script_forwarded (data resp')
      \<and> apps_script_error (data ?resp) = apps_script_error (data resp')
      \<and> geofence_ok (data ?resp) = geofence_ok (data resp')
      \<and> ?resp = resp'\<lparr>data := (data resp')\<lparr>inserted_id := None\<rparr>\<rparr>" for cd
  proof -
    let ?rt' = "rt\<lparr>create_document := cd\<rparr>"
    have gate': "accuracy_gate ?rt' p = Inr m" and geo': "geofence ?rt' p = Inr g"
      using gate geo by (simp_all add: store_irrelevant)
    note run' = submit_dispatch [OF gate' geo']
    have eq: "?resp = snd (dispatch ?rt' p g)
        \<lparr>data := (data (snd (dispatch ?rt' p g)))\<lparr>inserted_id := None\<rparr>\<rparr>"
      using dispatch_store_irrelevant [where rt = rt and cd = cd and p = p and g = g] same by simp
    show ?thesis
      using run' eq by (simp add: dispatch_fields store_irrelevant)
  qed
  from run none other show ?thesis
    by (simp add: dispatch_fields)
qed

theorem persistence_failure_is_swallowed_witness:
  "\<exists>fx resp.
     submit_attendance
       (sample_runtime [] (post_raises ''timeout'') (store_raises ''ServerSelectionTimeoutError''))
       (sample_payload 0 0 10) = (fx, Inr resp)
     \<and> success resp
     \<and> inserted_id (data resp) = None
     \<and> \<not> apps_script_forwarded (data resp)
     \<and> apps_script_error (data resp) = None
     \<and> geofence_ok (data resp) = None"
proof -
  let ?rt = "sample_runtime [] (post_raises ''timeout'') (store_raises ''ServerSelectionTimeoutError'')"
  let ?p = "sample_payload 0 0 10"
  have gate: "accuracy_gate ?rt ?p = Inr 50"
    by (simp add: sample_gate)
  have geo: "geofence ?rt ?p = Inr None"
    by (simp add: geofence_def geofence_try_def env_float_def sample_runtime_def)
  have store: "create_document ?rt ''attendancerecord'' (build_record ?rt ?p None)
      = Raised ''ServerSelectionTimeoutError''"
    by (simp add: sample_runtime_def store_raises_def)
  have unset: "getenv ?rt ''APPS_SCRIPT_URL'' = None"
    by (simp add: sample_runtime_def)
  from persistence_failure_is_swallowed [OF gate geo store]
  obtain fx resp where run: "submit_attendance ?rt ?p = (fx, Inr resp)"
    and ok: "success resp" "inserted_id (data resp) = None"
    by blast
  from run submit_dispatch [OF gate geo] have "resp = snd (dispatch ?rt ?p None)" by simp
  then have "\<not> apps_script_forwarded (data resp)" "apps_script_error (data resp) = None"
      "geofence_ok (data resp) = None"
    using forward_skipped [OF unset] by (simp_all add: dispatch_fields)
  with run ok show ?thesis by blast
qed

text \<open>
  C7 (as stated, refuted). The forwarder answers with status 200 and a body that is not
  JSON. The handler records the forward as done: \<open>apps_script_forwarded = true\<close> and
  \<open>apps_script_error = null\<close>.
\<close>

theorem malformed_body_on_200_counterexample:
  "submit_attendance
     (sample_runtime [(''APPS_SCRIPT_URL'', ''https://script.example/exec'')]
        (post_returns \<lparr>status_code = 200, text_str = ''<html>Sign in</html>'', json_body = None\<rparr>)
        (store_returns ''id1''))
     (sample_payload 0 0 10)
   = ([ForwarderCall ''https://script.example/exec''
         [(''name'', JStr ''Ada''), (''email'', JStr ''ada@example.org''),
          (''date'', JStr ''2025-11-03''), (''time'', JStr ''09:15:00''),
          (''latitude'', JNum 0), (''longitude'', JNum 0), (''accuracy_m'', JNum 10),
          (''month_tab'', JStr ''Nov-2025''), (''photo_base64'', JNull),
          (''geofence_ok'', JNull)] 15,
       PersistenceWrite ''attendancerecord''
         \<lparr> AttendanceRecord.name = ''Ada'', AttendanceRecord.email = ''ada@example.org'',
           AttendanceRecord.date = ''2025-11-03'', AttendanceRecord.time = ''09:15:00'',
           AttendanceRecord.latitude = 0, AttendanceRecord.longitude = 0,
           AttendanceRecord.accuracy_m = 10, AttendanceRecord.photo_url = None,
           AttendanceRecord.geofence_ok = None, AttendanceRecord.raw_photo_base64 = None \<rparr>],
      Inr \<lparr> success = True,
            message = ''Attendance marked successfully!'',
            data = \<lparr> inserted_id = Some ''id1'', date = ''2025-11-03'', time = ''09:15:00'',
                     latitude = 0, longitude = 0, accuracy_m = 10, geofence_ok = None,
                     photo_url = JNull, apps_script_forwarded = True,
                     apps_script_error = None \<rparr>,
            dashboard_url = None \<rparr>)"
  by (simp add: submit_attendance_def accuracy_gate_def getenv_default_def geofence_def
      geofence_try_def env_float_def dispatch_def build_record_def forward_def gs_payload_def
      photo_url_from_def persist_def dashboard_def sample_runtime_def sample_payload_def
      digits_float_def stopped_clock_def post_returns_def store_returns_def opt_str_def
      opt_bool_def)

text \<open>
  C7 (amended). For a submission that passed both gates, when the forwarder returns a
  response whose body is not JSON, the handler goes on to the store and the response
  has no photo URL. The outcome is recorded as a forwarder failure only when the status
  is not 200; with status 200 the response has \<open>apps_script_forwarded = true\<close> and
  \<open>apps_script_error = null\<close>.
\<close>

theorem malformed_body_is_failure_only_with_bad_status:
  assumes gate: "accuracy_gate rt p = Inr m"
    and geo: "geofence rt p = Inr g"
    and url: "getenv rt ''APPS_SCRIPT_URL'' = Some url" "url \<noteq> []"
    and call: "requests_post rt url (gs_payload rt (build_record rt p g)) 15 = Returned resp"
    and malformed: "json_body resp = None"
  shows "\<exists>fx r. submit_attendance rt p = (fx, Inr r)
      \<and> PersistenceWrite ''attendancerecord'' (build_record rt p g) \<in> set fx
      \<and> success r
      \<and> photo_url (data r) = JNull
      \<and> (status_code resp = 200 \<longrightarrow>
            apps_script_forwarded (data r) \<and> apps_script_error (data r) = None)
      \<and> (status_code resp \<noteq> 200 \<longrightarrow>
            \<not> apps_script_forwarded (data r)
            \<and> apps_script_error (data r)
                = Some (''Apps Script HTTP '' @ str_int (status_code resp) @ '': ''
                        @ take 200 (text_str resp)))"
proof (cases "status_code resp = 200")
  case True
  from forward_ok_status [OF url call True] submit_dispatch [OF gate geo]
    write_in_dispatch [of rt p g] True photo_url_unparseable [OF malformed]
  show ?thesis by (simp add: dispatch_fields)
next
  case False
  from forward_bad_status [OF url call False] submit_dispatch [OF gate geo]
    write_in_dispatch [of rt p g] False
  show ?thesis by (simp add: dispatch_fields)
qed

theorem malformed_body_is_failure_only_with_bad_status_witness:
  "(\<exists>fx r.
      submit_attendance
        (sample_runtime [(''APPS_SCRIPT_URL'', ''https://script.example/exec'')]
           (post_returns \<lparr>status_code = 200, text_str = ''<html>Sign in</html>'', json_body = None\<rparr>)
           (store_returns ''id1''))
        (sample_payload 0 0 10) = (fx, Inr r)
      \<and> success r \<and> photo_url (data r) = JNull
      \<and> apps_script_forwarded (data r) \<and> apps_script_error (data r) = None)
   \<and> (\<exists>fx r.
      submit_attendance
        (sample_runtime [(''APPS_SCRIPT_URL'', ''https://script.example/exec'')]
           (post_returns \<lparr>status_code = 502, text_str = ''Bad Gateway'', json_body = None\<rparr>)
           (store_returns ''id1''))
        (sample_payload 0 0 10) = (fx, Inr r)
      \<and> success r \<and> photo_url (data r) = JNull
      \<and> \<not> apps_script_forwarded (data r)
      \<and> apps_script_error (data r) = Some ''Apps Script HTTP 502: Bad Gateway'')"
proof -
  let ?env = "[(''APPS_SCRIPT_URL'', ''https://script.example/exec'')]"
  let ?ok = "\<lparr>status_code = 200, text_str = ''<html>Sign in</html>'', json_body = None\<rparr>"
  let ?bad = "\<lparr>status_code = 502, text_str = ''Bad Gateway'', json_body = None\<rparr>"
  let ?rt = "\<lambda>resp. sample_runtime ?env (post_returns resp) (store_returns ''id1'')"
  let ?p = "sample_payload 0 0 10"
  have gate: "accuracy_gate (?rt resp) ?p = Inr 50" for resp
    by (simp add: sample_gate)
  have geo: "geofence (?rt resp) ?p = Inr None" for resp
    by (simp add: geofence_def geofence_try_def env_float_def sample_runtime_def)
  have url: "getenv (?rt resp) ''APPS_SCRIPT_URL'' = Some ''https://script.example/exec''" for resp
    by (simp add: sample_runtime_def)
  have ne: "''https://script.example/exec'' \<noteq> []" by simp
  have call: "requests_post (?rt resp) ''https://script.example/exec''
      (gs_payload (?rt resp) (build_record (?rt resp) ?p None)) 15 = Returned resp" for resp
    by (simp add: sample_runtime_def post_returns_def)
  have code: "str_int 502 = ''502''"
    by (simp add: str_int_def char_of_eq_iff)
  have m1: "json_body ?ok = None" and m2: "json_body ?bad = None" by simp_all
  from malformed_body_is_failure_only_with_bad_status [OF gate geo url ne call m1]
  have 1: "\<exists>fx r. submit_attendance (?rt ?ok) ?p = (fx, Inr r)
      \<and> success r \<and> photo_url (data r) = JNull
      \<and> apps_script_forwarded (data r) \<and> apps_script_error (data r) = None"
    by auto
  from malformed_body_is_failure_only_with_bad_status [OF gate geo url ne call m2]
  have 2: "\<exists>fx r. submit_attendance (?rt ?bad) ?p = (fx, Inr r)
      \<and> success r \<and> photo_url (data r) = JNull
      \<and> \<not> apps_script_forwarded (data r)
      \<and> apps_script_error (data r) = Some ''Apps Script HTTP 502: Bad Gateway''"
    by (auto simp: code)
  from 1 2 show ?thesis by (rule conjI)
qed

text \<open>
  C8. For a submission that passed both gates, with APPS_SCRIPT_URL unset: the handler
  makes no forwarder call, it makes the single call to the store, and the response has
  \<open>apps_script_forwarded = false\<close> and \<open>apps_script_error = null\<close>.
\<close>

theorem no_endpoint_skips_forwarding:
  assumes gate: "accuracy_gate rt p = Inr m"
    and geo: "geofence rt p = Inr g"
    and unset: "getenv rt ''APPS_SCRIPT_URL'' = None"
  shows "\<exists>resp. submit_attendance rt p =
             ([PersistenceWrite ''attendancerecord'' (build_record rt p g)], Inr resp)
         \<and> success resp
         \<and> \<not> apps_script_forwarded (data resp)
         \<and> apps_script_error (data resp) = None"
  using submit_dispatch [OF gate geo] forward_skipped [OF unset]
  by (simp add: dispatch_fields persist_effect)

theorem no_endpoint_skips_forwarding_witness:
  "\<exists>resp.
     submit_attendance (sample_runtime [] (post_raises ''timeout'') (store_returns ''id1''))
       (sample_payload 0 0 10)
     = ([PersistenceWrite ''attendancerecord''
           (build_record (sample_runtime [] (post_raises ''timeout'') (store_returns ''id1''))
              (sample_payload 0 0 10) None)],
        Inr resp)
     \<and> success resp
     \<and> \<not> apps_script_forwarded (data resp)
     \<and> apps_script_error (data resp) = None"
proof -
  let ?rt = "sample_runtime [] (post_raises ''timeout'') (store_returns ''id1'')"
  let ?p = "sample_payload 0 0 10"
  have gate: "accuracy_gate ?rt ?p = Inr 50"
    by (simp add: sample_gate)
  have geo: "geofence ?rt ?p = Inr None"
    by (simp add: geofence_def geofence_try_def env_float_def sample_runtime_def)
  have unset: "getenv ?rt ''APPS_SCRIPT_URL'' = None"
    by (simp add: sample_runtime_def)
  show ?thesis by (rule no_endpoint_skips_forwarding [OF gate geo unset])
qed

text \<open>
  C9. In every response the handler returns with \<open>success = true\<close>, \<open>geofence_ok\<close> is null
  or true, never false: a false verdict leaves the handler by the geofence rejection.
\<close>

theorem success_geofence_ok_never_false:
  assumes "submit_attendance rt p = (fx, Inr resp)" and "success resp"
  shows "geofence_ok (data resp) = None \<or> geofence_ok (data resp) = Some True"
proof -
  from assms(1) obtain m g where gate: "accuracy_gate rt p = Inr m" and geo: "geofence rt p = Inr g"
    by (auto simp: submit_attendance_def split: sum.splits)
  from submit_dispatch [OF gate geo] assms(1) have "resp = snd (dispatch rt p g)" by simp
  then have "geofence_ok (data resp) = g" by (simp add: dispatch_fields)
  with geofence_verdict [OF geo] show ?thesis by simp
qed

theorem success_geofence_ok_never_false_witness:
  "\<exists>fx resp.
     submit_attendance
       (sample_runtime [(''OFFICE_LAT'', ''0''), (''OFFICE_LNG'', ''0''), (''OFFICE_RADIUS_M'', ''100'')]
          (post_raises ''timeout'') (store_returns ''id1''))
       (sample_payload 0 0 10) = (fx, Inr resp)
     \<and> success resp
     \<and> (geofence_ok (data resp) = None \<or> geofence_ok (data resp) = Some True)"
proof -
  let ?rt = "sample_runtime [(''OFFICE_LAT'', ''0''), (''OFFICE_LNG'', ''0''), (''OFFICE_RADIUS_M'', ''100'')]
          (post_raises ''timeout'') (store_returns ''id1'')"
  let ?p = "sample_payload 0 0 10"
  have gate: "accuracy_gate ?rt ?p = Inr 50"
    by (simp add: sample_gate)
  have geo: "geofence ?rt ?p = Inr (Some True)"
    by (simp add: geofence_def geofence_try_def env_float_def sample_runtime_def
        sample_payload_def digits_float_def dist_m_haversine haversine_same_point)
  note run = submit_dispatch [OF gate geo]
  have ok: "success (snd (dispatch ?rt ?p (Some True)))" by (rule dispatch_fields)
  from success_geofence_ok_never_false [OF run ok] run ok show ?thesis by blast
qed

text \<open>
  C10. If MAX_ALLOWED_ACCURACY_M is set to a string that \<open>float\<close> refuses, the handler
  raises the unhandled \<open>ValueError\<close> of the conversion: no default is applied, no
  \<open>HTTPException\<close> is built, and no sink is called.
\<close>

theorem malformed_max_accuracy_raises:
  assumes "getenv rt ''MAX_ALLOWED_ACCURACY_M'' = Some s" and "py_float rt s = None"
  shows "submit_attendance rt p = ([], Inl ValueError)"
proof -
  have "accuracy_gate rt p = Inl ValueError"
    using assms by (simp add: accuracy_gate_def getenv_default_def)
  then show ?thesis by (rule submit_gate_raises)
qed

theorem malformed_max_accuracy_raises_witness:
  "submit_attendance
     (sample_runtime [(''MAX_ALLOWED_ACCURACY_M'', ''fifty'')] (post_raises ''timeout'')
        (store_returns ''id1''))
     (sample_payload 0 0 10) = ([], Inl ValueError)"
proof -
  let ?rt = "sample_runtime [(''MAX_ALLOWED_ACCURACY_M'', ''fifty'')] (post_raises ''timeout'')
        (store_returns ''id1'')"
  have 1: "getenv ?rt ''MAX_ALLOWED_ACCURACY_M'' = Some ''fifty''"
    by (simp add: sample_runtime_def)
  have 2: "py_float ?rt ''fifty'' = None"
    by (simp add: sample_runtime_def digits_float_def)
  show ?thesis by (rule malformed_max_accuracy_raises [OF 1 2])
qed

end
